theory Spec2Isabelle
  imports Main
begin

section \<open>Byte strings and the library functions used by the connection engine\<close>

text \<open>
  Go strings are byte sequences; they are modelled as \<open>string\<close> (a list of 8-bit
  characters). The functions of this section stand for the Go standard library functions
  that \<^verbatim>\<open>conn.go\<close> calls (\<^verbatim>\<open>strings\<close>, \<^verbatim>\<open>strconv\<close>, \<^verbatim>\<open>fmt\<close>,
  \<^verbatim>\<open>encoding/base64\<close>, \<^verbatim>\<open>regexp\<close>, \<^verbatim>\<open>bufio\<close>). Case mapping and white space are
  the ASCII ones: on input bytes below 128 they agree with Go's Unicode-aware functions.
\<close>

definition CRLF :: string where
  "CRLF = [CHR 0x0D, CHR 0x0A]"

text \<open>Whether every byte is below 128.\<close>

definition is_ascii :: "string \<Rightarrow> bool" where
  "is_ascii s = list_all (\<lambda>c. (of_char c :: nat) < 128) s"

definition upper_char :: "char \<Rightarrow> char" where
  "upper_char c =
     (let n = (of_char c :: nat) in if 97 \<le> n \<and> n \<le> 122 then char_of (n - 32) else c)"

text \<open>\<^verbatim>\<open>strings.ToUpper\<close> on ASCII bytes. Go's function also maps letters beyond ASCII
  (U+0131 to \<open>I\<close>, U+017F to \<open>S\<close>); a property that depends on the case mapping of an
  arbitrary input is stated for inputs that satisfy \<open>is_ascii\<close>.\<close>

definition ToUpper :: "string \<Rightarrow> string" where
  "ToUpper s = map upper_char s"

text \<open>The white space of \<^verbatim>\<open>strings.Fields\<close>: tab, line feed, vertical tab, form feed,
  carriage return and space.\<close>

definition isSpace :: "char \<Rightarrow> bool" where
  "isSpace c \<longleftrightarrow> c \<in> set [CHR 0x09, CHR 0x0A, CHR 0x0B, CHR 0x0C, CHR 0x0D, CHR '' '']"

fun fields_from :: "string \<Rightarrow> string \<Rightarrow> string list" where
  "fields_from cur [] = (if cur = [] then [] else [cur])"
| "fields_from cur (c # cs) =
     (if isSpace c then (if cur = [] then fields_from [] cs else cur # fields_from [] cs)
      else fields_from (cur @ [c]) cs)"

text \<open>\<^verbatim>\<open>strings.Fields\<close> on ASCII bytes: the maximal runs of non-space bytes, in order.
  Go's function also splits at the Unicode white space beyond ASCII (U+0085, U+00A0 and
  others), so the two agree on inputs that satisfy \<open>is_ascii\<close>.\<close>

definition Fields :: "string \<Rightarrow> string list" where
  "Fields s = fields_from [] s"

text \<open>\<^verbatim>\<open>strings.Trim(s, cutset)\<close>: drops the leading and the trailing bytes that occur
  in the cutset.\<close>

definition Trim :: "string \<Rightarrow> string \<Rightarrow> string" where
  "Trim s cutset =
     rev (dropWhile (\<lambda>c. c \<in> set cutset) (rev (dropWhile (\<lambda>c. c \<in> set cutset) s)))"

subsection \<open>Decimal numbers\<close>

definition digit_char :: "nat \<Rightarrow> char" where
  "digit_char d = char_of (48 + d)"

fun digits :: "nat \<Rightarrow> string" where
  "digits n = (if n < 10 then [digit_char n] else digits (n div 10) @ [digit_char (n mod 10)])"

declare digits.simps [simp del]

text \<open>\<^verbatim>\<open>fmt.Sprintf("%v", n)\<close> for an integer \<open>n\<close>.\<close>

definition itoa :: "int \<Rightarrow> string" where
  "itoa i = (if i < 0 then CHR ''-'' # digits (nat (- i)) else digits (nat i))"

definition digit_val :: "char \<Rightarrow> nat option" where
  "digit_val c =
     (let n = (of_char c :: nat) in if 48 \<le> n \<and> n \<le> 57 then Some (n - 48) else None)"

fun parse_digits :: "int \<Rightarrow> string \<Rightarrow> int option" where
  "parse_digits acc [] = Some acc"
| "parse_digits acc (c # cs) =
     (case digit_val c of None \<Rightarrow> None | Some d \<Rightarrow> parse_digits (acc * 10 + int d) cs)"

text \<open>
  \<^verbatim>\<open>strconv.ParseInt(s, 10, 32)\<close>: an optional sign, then at least one decimal digit and
  nothing else; the value has to fit a signed 32-bit integer. \<open>None\<close> stands for the
  returned error (syntax or range).
\<close>

definition ParseInt32 :: "string \<Rightarrow> int option" where
  "ParseInt32 s =
     (case s of
        [] \<Rightarrow> None
      | c # cs \<Rightarrow>
          (let neg = (c = CHR ''-'');
               ds = (if c = CHR ''+'' \<or> c = CHR ''-'' then cs else s)
           in if ds = [] then None
              else (case parse_digits 0 ds of
                      None \<Rightarrow> None
                    | Some n \<Rightarrow>
                        (let v = (if neg then - n else n)
                         in if - 2147483648 \<le> v \<and> v \<le> 2147483647 then Some v else None))))"

subsection \<open>Base64, standard alphabet with padding\<close>

definition b64_alphabet :: string where
  "b64_alphabet = ''ABCDEFGHIJKLMNOPQRSTUVWXYZabcdefghijklmnopqrstuvwxyz0123456789+/''"

fun index_of :: "char \<Rightarrow> string \<Rightarrow> nat option" where
  "index_of c [] = None"
| "index_of c (x # xs) = (if c = x then Some 0 else map_option Suc (index_of c xs))"

definition b64_val :: "char \<Rightarrow> nat option" where
  "b64_val c = index_of c b64_alphabet"

text \<open>
  One group of four input characters. Padding is accepted in the last group only, as
  \<open>xx==\<close> (one byte) or \<open>xxx=\<close> (two bytes); the unused low bits of the last character
  are not checked (the standard encoding is not strict).
\<close>

definition decode_quantum :: "bool \<Rightarrow> char \<Rightarrow> char \<Rightarrow> char \<Rightarrow> char \<Rightarrow> string option" where
  "decode_quantum final a b c d =
     (case (b64_val a, b64_val b) of
        (Some x, Some y) \<Rightarrow>
          (if c = CHR ''='' then
             (if final \<and> d = CHR ''='' then Some [char_of (x * 4 + y div 16)] else None)
           else
             (case b64_val c of
                None \<Rightarrow> None
              | Some z \<Rightarrow>
                  (if d = CHR ''='' then
                     (if final
                      then Some [char_of (x * 4 + y div 16), char_of ((y mod 16) * 16 + z div 4)]
                      else None)
                   else
                     (case b64_val d of
                        None \<Rightarrow> None
                      | Some w \<Rightarrow>
                          Some [char_of (x * 4 + y div 16),
                                char_of ((y mod 16) * 16 + z div 4),
                                char_of ((z mod 4) * 64 + w)]))))
      | _ \<Rightarrow> None)"

fun decode_quanta :: "string \<Rightarrow> string option" where
  "decode_quanta [] = Some []"
| "decode_quanta (a # b # c # d # rest) =
     (case decode_quantum (rest = []) a b c d of
        None \<Rightarrow> None
      | Some bs \<Rightarrow> map_option (\<lambda>r. bs @ r) (decode_quanta rest))"
| "decode_quanta _ = None"

text \<open>
  \<^verbatim>\<open>base64.StdEncoding.DecodeString\<close>: carriage returns and line feeds are skipped, the
  rest is read in groups of four. \<open>None\<close> stands for the returned error.
\<close>

definition DecodeString :: "string \<Rightarrow> string option" where
  "DecodeString s = decode_quanta (filter (\<lambda>c. c \<noteq> CHR 0x0D \<and> c \<noteq> CHR 0x0A) s)"

definition b64_char :: "nat \<Rightarrow> char" where
  "b64_char n = b64_alphabet ! n"

text \<open>\<^verbatim>\<open>base64.StdEncoding.EncodeToString\<close>.\<close>

fun EncodeToString :: "string \<Rightarrow> string" where
  "EncodeToString [] = []"
| "EncodeToString [a] =
     (let x = (of_char a :: nat)
      in [b64_char (x div 4), b64_char ((x mod 4) * 16), CHR ''='', CHR ''=''])"
| "EncodeToString [a, b] =
     (let x = (of_char a :: nat); y = (of_char b :: nat)
      in [b64_char (x div 4), b64_char ((x mod 4) * 16 + y div 16),
          b64_char ((y mod 16) * 4), CHR ''=''])"
| "EncodeToString (a # b # c # rest) =
     (let x = (of_char a :: nat); y = (of_char b :: nat); z = (of_char c :: nat)
      in [b64_char (x div 4), b64_char ((x mod 4) * 16 + y div 16),
          b64_char ((y mod 16) * 4 + z div 64), b64_char (z mod 64)] @ EncodeToString rest)"

subsection \<open>The regular expression of the MAIL argument\<close>

text \<open>
  \<^verbatim>\<open>handleMail\<close> matches its argument against
  \<^verbatim>\<open>(?i)^FROM:\s*<((?:\\>|[^>])+|"[^"]+"@[^>]+)>( [\w= ]+)?$\<close>
  and uses the two submatches. The expression is anchored at both ends and its second
  group cannot contain \<open>>\<close>, so in every match the \<open>>\<close> that closes the address is the
  last \<open>>\<close> of the argument: the first submatch is what lies between the opening \<open><\<close> and
  that last \<open>>\<close>, the second is what follows it (empty when the group takes no part).
  The functions below check the pieces in this way.
\<close>

text \<open>\<^verbatim>\<open>\s\<close>: tab, line feed, form feed, carriage return, space.\<close>

definition is_re_space :: "char \<Rightarrow> bool" where
  "is_re_space c \<longleftrightarrow> c \<in> set [CHR 0x09, CHR 0x0A, CHR 0x0C, CHR 0x0D, CHR '' '']"

text \<open>\<^verbatim>\<open>\w\<close>: digits, ASCII letters and the underscore.\<close>

definition is_word_char :: "char \<Rightarrow> bool" where
  "is_word_char c =
     (let n = (of_char c :: nat)
      in (48 \<le> n \<and> n \<le> 57) \<or> (65 \<le> n \<and> n \<le> 90) \<or> n = 95 \<or> (97 \<le> n \<and> n \<le> 122))"

text \<open>\<^verbatim>\<open>(?:\\>|[^>])*\<close>: a backslash followed by \<open>>\<close>, or any byte other than \<open>>\<close>.\<close>

fun addr_plain :: "string \<Rightarrow> bool" where
  "addr_plain [] = True"
| "addr_plain [a] = (a \<noteq> CHR ''>'')"
| "addr_plain (a # b # cs) =
     (if a = CHR 0x5C \<and> b = CHR ''>'' then addr_plain cs
      else a \<noteq> CHR ''>'' \<and> addr_plain (b # cs))"

text \<open>\<^verbatim>\<open>"[^"]+"@[^>]+\<close>.\<close>

definition addr_quoted :: "string \<Rightarrow> bool" where
  "addr_quoted g =
     (case g of
        [] \<Rightarrow> False
      | q # r \<Rightarrow>
          q = CHR 0x22 \<and> takeWhile (\<lambda>c. c \<noteq> CHR 0x22) r \<noteq> [] \<and>
          (case dropWhile (\<lambda>c. c \<noteq> CHR 0x22) r of
             q' # a # y \<Rightarrow> a = CHR ''@'' \<and> y \<noteq> [] \<and> CHR ''>'' \<notin> set y
           | _ \<Rightarrow> False))"

text \<open>\<^verbatim>\<open>( [\w= ]+)\<close>.\<close>

definition params_ok :: "string \<Rightarrow> bool" where
  "params_ok p =
     (case p of
        [] \<Rightarrow> False
      | c # t \<Rightarrow> c = CHR '' '' \<and> t \<noteq> [] \<and>
          list_all (\<lambda>x. is_word_char x \<or> x = CHR ''='' \<or> x = CHR '' '') t)"

text \<open>\<^verbatim>\<open>re.FindStringSubmatch(arg)\<close> for that expression: \<open>None\<close> when there is no
  match, else the submatches \<open>m[1]\<close> and \<open>m[2]\<close>.\<close>

definition FindStringSubmatch :: "string \<Rightarrow> (string \<times> string) option" where
  "FindStringSubmatch arg =
     (if ToUpper (take 5 arg) = ''FROM:'' then
        (case dropWhile is_re_space (drop 5 arg) of
           [] \<Rightarrow> None
         | c # r \<Rightarrow>
             (if c = CHR ''<'' \<and> CHR ''>'' \<in> set r then
                (let g2 = rev (takeWhile (\<lambda>x. x \<noteq> CHR ''>'') (rev r));
                     g1 = rev (tl (dropWhile (\<lambda>x. x \<noteq> CHR ''>'') (rev r)))
                 in if g1 = [] then None
                    else if (addr_plain g1 \<or> addr_quoted g1) \<and> (g2 = [] \<or> params_ok g2)
                    then Some (g1, g2) else None)
              else None))
      else None)"

subsection \<open>Helpers of the repository that are not in \<^verbatim>\<open>conn.go\<close>\<close>

text \<open>
  Modelled from the spec: \<^verbatim>\<open>parseHelloArgument\<close> is called by \<^verbatim>\<open>handleGreet\<close> but its
  source is missing. ``The first whitespace-delimited token is the client domain; empty or
  missing gives 501.'' \<open>None\<close> is the error.
\<close>

definition parseHelloArgument :: "string \<Rightarrow> string option" where
  "parseHelloArgument arg = (case Fields arg of [] \<Rightarrow> None | domain # _ \<Rightarrow> Some domain)"

text \<open>
  Modelled from the spec: \<^verbatim>\<open>parseArgs\<close> is called by \<^verbatim>\<open>handleMail\<close> but its source is
  missing. ``Optional PARAMS parse as space-separated KEY=VALUE tokens into a
  case-insensitive mapping; any parse failure gives 501.'' Keys are stored in upper case;
  a token without \<open>=\<close>, or with an empty key or value, is a parse failure; a later token
  overrides an earlier one with the same key.
\<close>

fun split_spaces :: "string \<Rightarrow> string \<Rightarrow> string list" where
  "split_spaces cur [] = (if cur = [] then [] else [cur])"
| "split_spaces cur (c # cs) =
     (if c = CHR '' '' then (if cur = [] then split_spaces [] cs else cur # split_spaces [] cs)
      else split_spaces (cur @ [c]) cs)"

fun parse_tokens :: "string list \<Rightarrow> (string \<rightharpoonup> string) \<Rightarrow> (string \<rightharpoonup> string) option" where
  "parse_tokens [] args = Some args"
| "parse_tokens (t # ts) args =
     (let key = takeWhile (\<lambda>c. c \<noteq> CHR ''='') t;
          rest = dropWhile (\<lambda>c. c \<noteq> CHR ''='') t
      in if key = [] then None
         else if length rest < 2 then None
         else parse_tokens ts (args(ToUpper key \<mapsto> tl rest)))"

definition parseArgs :: "string \<Rightarrow> (string \<rightharpoonup> string) option" where
  "parseArgs arg = parse_tokens (split_spaces [] arg) Map.empty"

subsection \<open>Reading lines\<close>

definition dropCR :: "string \<Rightarrow> string" where
  "dropCR line = (if line = [] then line else if last line = CHR 0x0D then butlast line else line)"

text \<open>
  One \<^verbatim>\<open>Scan()\<close> of a \<^verbatim>\<open>bufio.Scanner\<close> (which splits lines) over the unread bytes
  of the connection: \<open>None\<close> when nothing is left, else the next line without its line
  feed and without one trailing carriage return, and the bytes after it. The scanner is
  taken to consume exactly the lines it returns; the scanner of the code may read further
  ahead, and what it has buffered is lost when \<^verbatim>\<open>handleAuth\<close> returns. This touches the
  \<open>reader\<close> field only, which no property below relies on after an \<open>AUTH\<close>.
\<close>

definition scan_line :: "string \<Rightarrow> (string \<times> string) option" where
  "scan_line r =
     (if r = [] then None
      else Some (dropCR (takeWhile (\<lambda>c. c \<noteq> CHR 0x0A) r),
                 drop 1 (dropWhile (\<lambda>c. c \<noteq> CHR 0x0A) r)))"

section \<open>The data model\<close>

text \<open>
  Modelled from the spec: the type \<^verbatim>\<open>smtpError\<close> is used by \<^verbatim>\<open>handleData\<close> (fields
  \<^verbatim>\<open>Code\<close> and \<^verbatim>\<open>Message\<close>) but declared outside \<^verbatim>\<open>conn.go\<close>. ``The delivery
  error may carry a specific SMTP code/text pair that is reported verbatim; otherwise 554
  with a generic message.'' A Go \<^verbatim>\<open>error\<close> is either such an \<^verbatim>\<open>*smtpError\<close> or any
  other error, of which only the message is used.
\<close>

datatype go_error = smtpError (Code: string) (Message: string) | otherError (Error: string)

text \<open>
  \<^verbatim>\<open>Message\<close>, with the fields that \<^verbatim>\<open>conn.go\<close> uses. \<open>Data\<close> is the body reader that \<^verbatim>\<open>handleData\<close> installs before it
  calls the backend: it is represented by what reading it to the end yields, the body
  or the reader's error.
\<close>

record message =
  From :: string
  To :: "string list"
  Data :: "(go_error + string) option"

text \<open>
  A \<^verbatim>\<open>User\<close> of the backend: an identity and its \<^verbatim>\<open>Send\<close> method. The backend reads
  as much of the body as it likes, so \<open>Send u m unread\<close>, called with the message and the
  unread bytes of the connection, yields the returned error (\<open>None\<close> is nil) and the bytes
  that are left unread on the connection when it returns. \<^verbatim>\<open>Logout\<close> calls are
  recorded in the connection.
\<close>

datatype user =
  Backend_User (uname: string) (Send: "message \<Rightarrow> string \<Rightarrow> go_error option \<times> string")

text \<open>
  A SASL session, the object that a factory of \<^verbatim>\<open>server.auths\<close> returns.
  \<^verbatim>\<open>Next(response)\<close> yields a challenge, the \<open>done\<close> flag and an error, and leaves the
  session in a new state; a \<open>nil\<close> response is \<open>None\<close>. The factory is given the
  connection so that the session can store the user it has logged in into
  \<^verbatim>\<open>conn.User\<close>: \<open>login\<close> is \<open>Some u\<close> when the call does so.
\<close>

record sasl_reply =
  challenge :: string
  sasl_done :: bool
  err :: "string option"
  login :: "user option"

codatatype sasl = Sasl (Next: "string option \<Rightarrow> sasl_reply") (after: "string option \<Rightarrow> sasl")

datatype tls_config = TLS_Config

text \<open>
  \<^verbatim>\<open>Server\<close>, with the fields that \<^verbatim>\<open>conn.go\<close> reads. \<open>auths\<close> is the mechanism map as an
  association list (Go iterates over a map in no fixed order; the list order stands for
  the order of one iteration).
\<close>

record server =
  Domain :: string
  caps :: "string list"
  auths :: "(string \<times> sasl) list"
  TLSConfig :: "tls_config option"
  AllowInsecureAuth :: bool
  MaxMessageBytes :: int
  MaxRecipients :: int

text \<open>
  \<^verbatim>\<open>Conn\<close>. The transport and its buffers are represented by: \<open>tls\<close>, whether the
  transport is a TLS connection (\<^verbatim>\<open>IsTLS\<close>); \<open>reader\<close>, the bytes the buffered reader
  will still deliver; \<open>written\<close>, the lines handed to the writer, in order; \<open>closed\<close>,
  whether \<^verbatim>\<open>Close\<close> was called. \<open>logouts\<close> lists the users whose \<^verbatim>\<open>Logout\<close> was
  called. \<open>nbrErrors\<close> is a Go \<^verbatim>\<open>int\<close>, taken as 64 bits wide.
\<close>

record conn =
  helo :: string
  User :: "user option"
  msg :: "message option"
  nbrErrors :: int
  tls :: bool
  reader :: string
  written :: "string list"
  closed :: bool
  logouts :: "user list"

text \<open>What the client does during a TLS upgrade: whether the handshake succeeds, and the
  bytes it then sends over the new transport.\<close>

record peer =
  handshake_ok :: bool
  tls_stream :: string

text \<open>The run-time panics of the handlers. A panic ends the handler; the connection as it
  was at that moment is kept with it.\<close>

datatype panic = IndexOutOfRange | NilDereference

type_synonym outcome = "(panic \<times> conn) + conn"

definition newConn :: "string \<Rightarrow> conn" where
  "newConn input =
     \<lparr>helo = [], User = None, msg = None, nbrErrors = 0, tls = False, reader = input,
      written = [], closed = False, logouts = []\<rparr>"

section \<open>Replies\<close>

text \<open>
  \<^verbatim>\<open>Write(code, text...)\<close>: all lines but the last as \<open>code-text\<close>, the last as
  \<open>code text\<close>, each ended by CRLF. Every call in \<^verbatim>\<open>conn.go\<close> passes at least one
  text, so the index \<^verbatim>\<open>len(text)-1\<close> is always in range. Deadlines and write errors
  are not represented: \<open>written\<close> is what the engine handed to its writer.
\<close>

definition Write :: "conn \<Rightarrow> string \<Rightarrow> string list \<Rightarrow> conn" where
  "Write c code text =
     c\<lparr>written := written c @ map (\<lambda>t. code @ ''-'' @ t @ CRLF) (butlast text)
                             @ [code @ '' '' @ last text @ CRLF]\<rparr>"

definition logout :: "conn \<Rightarrow> conn" where
  "logout c = (case User c of None \<Rightarrow> c | Some u \<Rightarrow> c\<lparr>logouts := logouts c @ [u]\<rparr>)"

definition Close :: "conn \<Rightarrow> conn" where
  "Close c = (logout c)\<lparr>closed := True\<rparr>"

definition reset :: "conn \<Rightarrow> conn" where
  "reset c = (logout c)\<lparr>helo := [], User := None, msg := None\<rparr>"

section \<open>The handlers\<close>

definition authCap :: "(string \<times> sasl) list \<Rightarrow> string" where
  "authCap as = foldl (\<lambda>acc (name, _). acc @ '' '' @ name) ''AUTH'' as"

definition handleGreet :: "server \<Rightarrow> bool \<Rightarrow> string \<Rightarrow> conn \<Rightarrow> conn" where
  "handleGreet s enhanced arg c =
     (if \<not> enhanced then
        (case parseHelloArgument arg of
           None \<Rightarrow> Write c ''501'' [''Domain/address argument required for HELO'']
         | Some domain \<Rightarrow> Write (c\<lparr>helo := domain\<rparr>) ''250'' [''Hello '' @ domain])
      else
        (case parseHelloArgument arg of
           None \<Rightarrow> Write c ''501'' [''Domain/address argument required for EHLO'']
         | Some domain \<Rightarrow>
             (let caps1 = caps s;
                  caps2 = (if TLSConfig s \<noteq> None \<and> \<not> tls c then caps1 @ [''STARTTLS''] else caps1);
                  caps3 = (if tls c \<or> AllowInsecureAuth s then caps2 @ [authCap (auths s)]
                           else caps2);
                  caps4 = (if MaxMessageBytes s > 0
                           then caps3 @ [''SIZE '' @ itoa (MaxMessageBytes s)] else caps3)
              in Write (c\<lparr>helo := domain\<rparr>) ''250'' ((''Hello '' @ domain) # caps4))))"

definition handleMail :: "server \<Rightarrow> string \<Rightarrow> conn \<Rightarrow> conn" where
  "handleMail s arg c =
     (if helo c = [] then Write c ''502'' [''Please introduce yourself first.'']
      else
        (case msg c of
           None \<Rightarrow> Write c ''502'' [''Please authenticate first.'']
         | Some m \<Rightarrow>
             (case FindStringSubmatch arg of
                None \<Rightarrow> Write c ''501'' [''Was expecting MAIL arg syntax of FROM:<address>'']
              | Some (from, params) \<Rightarrow>
                  (let accept = Write (c\<lparr>msg := Some (m\<lparr>From := from\<rparr>)\<rparr>) ''250''
                                  [''Roger, accepting mail from <'' @ from @ ''>'']
                   in if params = [] then accept
                      else
                        (case parseArgs params of
                           None \<Rightarrow> Write c ''501'' [''Unable to parse MAIL ESMTP parameters'']
                         | Some args \<Rightarrow>
                             (case args ''SIZE'' of
                                None \<Rightarrow> accept
                              | Some sz \<Rightarrow>
                                  (if sz = [] then accept
                                   else
                                     (case ParseInt32 sz of
                                        None \<Rightarrow>
                                          Write c ''501'' [''Unable to parse SIZE as an integer'']
                                      | Some size32 \<Rightarrow>
                                          (if MaxMessageBytes s > 0 \<and> size32 > MaxMessageBytes s
                                           then Write c ''552'' [''Max message size exceeded'']
                                           else accept)))))))))"

definition handleRcpt :: "server \<Rightarrow> string \<Rightarrow> conn \<Rightarrow> conn" where
  "handleRcpt s arg c =
     (case msg c of
        None \<Rightarrow> Write c ''502'' [''Missing MAIL FROM command.'']
      | Some m \<Rightarrow>
          (if From m = [] then Write c ''502'' [''Missing MAIL FROM command.'']
           else if length arg < 4
             then Write c ''501'' [''Was expecting RCPT arg syntax of TO:<address>'']
           else if ToUpper (take 3 arg) \<noteq> ''TO:''
             then Write c ''501'' [''Was expecting RCPT arg syntax of TO:<address>'']
           else
             (let recipient = Trim (drop 3 arg) ''<> ''
              in if MaxRecipients s > 0 \<and> int (length (To m)) \<ge> MaxRecipients s
                 then Write c ''552''
                        [''Maximum limit of '' @ itoa (MaxRecipients s) @ '' recipients reached'']
                 else Write (c\<lparr>msg := Some (m\<lparr>To := To m @ [recipient]\<rparr>)\<rparr>) ''250''
                        [''I'' @ [CHR 0x27] @ ''ll make sure <'' @ recipient @ ''> gets this''])))"

text \<open>
  The challenge-response loop of \<^verbatim>\<open>handleAuth\<close>. The result is the connection and
  whether the loop was left by \<^verbatim>\<open>break\<close> (the session is done) rather than by a
  \<^verbatim>\<open>return\<close>. Each round reads one line, so the loop ends when the input does.
\<close>

function auth_loop :: "sasl \<Rightarrow> string option \<Rightarrow> conn \<Rightarrow> conn \<times> bool" where
  "auth_loop session response c =
     (let r = Next session response;
          c1 = (case login r of None \<Rightarrow> c | Some u \<Rightarrow> c\<lparr>User := Some u\<rparr>)
      in case err r of
           Some e \<Rightarrow> (Write c1 ''454'' [e], False)
         | None \<Rightarrow>
             (if sasl_done r then (c1, True)
              else
                (let encoded = (if length (challenge r) > 0 then EncodeToString (challenge r)
                                else []);
                     c2 = Write c1 ''334'' [encoded]
                 in case scan_line (reader c) of
                      None \<Rightarrow> (c2, False)
                    | Some (line, rest) \<Rightarrow>
                        (if line \<noteq> [] then
                           (case DecodeString line of
                              None \<Rightarrow>
                                (Write (c2\<lparr>reader := rest\<rparr>) ''454'' [''Invalid base64 data''],
                                 False)
                            | Some bytes \<Rightarrow>
                                auth_loop (after session response) (Some bytes)
                                  (c2\<lparr>reader := rest\<rparr>))
                         else auth_loop (after session response) response
                                (c2\<lparr>reader := rest\<rparr>)))))"
  by pat_completeness auto
termination
proof -
  have shorter: "length rest < length r" if "scan_line r = Some (line, rest)" for r line rest
  proof -
    from that have "r \<noteq> []" and "rest = drop 1 (dropWhile (\<lambda>c. c \<noteq> CHR 0x0A) r)"
      by (auto simp: scan_line_def split: if_splits)
    moreover have "length (dropWhile (\<lambda>c. c \<noteq> CHR 0x0A) r) \<le> length r"
      by (rule length_dropWhile_le)
    ultimately show ?thesis by (cases r) auto
  qed
  show ?thesis
    by (relation "measure (\<lambda>(session, response, c). length (reader c))")
       (auto dest: shorter)
qed

declare auth_loop.simps [simp del]

text \<open>The part of \<^verbatim>\<open>handleAuth\<close> that follows the lookup of the mechanism: the loop and,
  when it was left by \<^verbatim>\<open>break\<close> with a user logged in, the 235 reply and the new
  envelope.\<close>

definition run_sasl :: "sasl \<Rightarrow> string option \<Rightarrow> conn \<Rightarrow> conn" where
  "run_sasl newSasl ir c =
     (case auth_loop newSasl ir c of
        (c1, finished) \<Rightarrow>
          (if finished then
             (case User c1 of
                None \<Rightarrow> c1
              | Some u \<Rightarrow>
                  (Write c1 ''235'' [''Authentication succeeded''])
                    \<lparr>msg := Some \<lparr>From = [], To = [], Data = None\<rparr>\<rparr>)
           else c1))"

text \<open>
  \<^verbatim>\<open>handleAuth\<close>. \<^verbatim>\<open>parts[0]\<close> panics when the argument holds white space only. The
  initial response \<open>ir\<close> is \<open>Some None\<close> when there is no second token, \<open>None\<close> when
  the second token does not decode.
\<close>

definition handleAuth :: "server \<Rightarrow> string \<Rightarrow> conn \<Rightarrow> outcome" where
  "handleAuth s arg c =
     (if helo c = [] then Inr (Write c ''502'' [''Please introduce yourself first.''])
      else if arg = [] then Inr (Write c ''502'' [''Missing parameter''])
      else
        (case Fields arg of
           [] \<Rightarrow> Inl (IndexOutOfRange, c)
         | p0 # ps \<Rightarrow>
             (case (case ps of [] \<Rightarrow> Some None | p1 # _ \<Rightarrow> map_option Some (DecodeString p1)) of
                None \<Rightarrow> Inr c
              | Some ir \<Rightarrow>
                  (case map_of (auths s) (ToUpper p0) of
                     None \<Rightarrow> Inr (Write c ''504'' [''Unsupported authentication mechanism''])
                   | Some newSasl \<Rightarrow> Inr (run_sasl newSasl ir c)))))"

definition handleStartTLS :: "server \<Rightarrow> peer \<Rightarrow> conn \<Rightarrow> conn" where
  "handleStartTLS s p c =
     (if tls c then Write c ''502'' [''Already running in TLS'']
      else if TLSConfig s = None then Write c ''502'' [''TLS not supported'']
      else
        (let c1 = Write c ''220'' [''Ready to start TLS''];
             c2 = (if handshake_ok p then c1 else Write c1 ''550'' [''Handshake error''])
         in reset (c2\<lparr>tls := True, reader := tls_stream p\<rparr>)))"

subsection \<open>The body reader\<close>

text \<open>
  Modelled from the spec: the reading of the body, which \<^verbatim>\<open>newDataReader\<close> does and
  whose source is missing. ``The body is a byte stream terminated
  by CRLF . CRLF at the start of a line. Any line whose first byte after a CRLF is a dot
  and which has further bytes before CRLF has that leading dot removed from the delivered
  stream. A lone dot on the first body line is a valid empty body terminator. CR and LF
  occurring separately are not line terminators. A bare dot inside a line is delivered
  verbatim.''

  \<open>read_body bol wire\<close> reads the wire bytes, \<open>bol\<close> telling whether the next byte
  starts a line. It yields the delivered bytes and, when the terminator was found, the
  bytes after it (\<open>None\<close>: the input ended first).
\<close>

fun read_body :: "bool \<Rightarrow> string \<Rightarrow> string \<times> string option" where
  "read_body bol [] = ([], None)"
| "read_body bol (c # cs) =
     (if bol \<and> c = CHR ''.'' then
        (if take 2 cs = CRLF then ([], Some (drop 2 cs)) else read_body False cs)
      else if c = CHR 0x0D \<and> take 1 cs = [CHR 0x0A] then
        (case read_body True (drop 1 cs) of (body, rest) \<Rightarrow> (c # CHR 0x0A # body, rest))
      else
        (case read_body False cs of (body, rest) \<Rightarrow> (c # body, rest)))"

text \<open>Modelled from the spec: the two errors of the reader, which are not in
  \<^verbatim>\<open>conn.go\<close>: the ``bounded-overflow error'', after which ``the state machine replies
  552'', and the ``end-of-input error''.\<close>

definition ErrDataTooLarge :: go_error where
  "ErrDataTooLarge = smtpError ''552'' ''Maximum message size exceeded''"

definition ErrUnexpectedEOF :: go_error where
  "ErrUnexpectedEOF = otherError ''unexpected EOF''"

text \<open>
  Modelled from the spec: \<^verbatim>\<open>newDataReader\<close> is called by \<^verbatim>\<open>handleData\<close> but its source
  is missing. ``If \<open>max_message_bytes > 0\<close> and the running body size (after unstuffing)
  exceeds it, the reader returns a bounded-overflow error. If the underlying transport
  closes before the terminator is seen, the reader returns an end-of-input error. Any
  unread bytes after the terminator are left in the buffer for subsequent commands.''
  The result is what reading the reader to its end yields, and the bytes that are left
  unread after it.
\<close>

definition newDataReader :: "server \<Rightarrow> conn \<Rightarrow> (go_error + string) \<times> string" where
  "newDataReader s c =
     (case read_body True (reader c) of
        (body, rest) \<Rightarrow>
          (if MaxMessageBytes s > 0 \<and> int (length body) > MaxMessageBytes s
             then Inl ErrDataTooLarge
           else (case rest of None \<Rightarrow> Inl ErrUnexpectedEOF | Some _ \<Rightarrow> Inr body),
           (case rest of None \<Rightarrow> [] | Some r \<Rightarrow> r)))"

text \<open>
  \<^verbatim>\<open>handleData\<close>. Calling \<^verbatim>\<open>Send\<close> on a nil \<^verbatim>\<open>User\<close> panics. When \<^verbatim>\<open>Send\<close>
  returns an error that is not an \<^verbatim>\<open>*smtpError\<close>, the \<^verbatim>\<open>else\<close> branch of the type
  assertion \<^verbatim>\<open>if err, ok := err.(*smtpError); ok\<close> is taken; there \<^verbatim>\<open>err\<close> is the
  variable of that statement, a nil \<^verbatim>\<open>*smtpError\<close>, and \<^verbatim>\<open>err.Error()\<close> on it (a
  method declared with the type, which reads the fields of its receiver) panics: after
  the 354 reply there is no 554 reply, no reset and no \<^verbatim>\<open>Logout\<close>.
\<close>

definition handleData :: "server \<Rightarrow> string \<Rightarrow> conn \<Rightarrow> outcome" where
  "handleData s arg c =
     (if arg \<noteq> [] then Inr (Write c ''501'' [''DATA command should not have any arguments''])
      else
        (case msg c of
           None \<Rightarrow> Inr (Write c ''502'' [''Missing RCPT TO command.''])
         | Some m \<Rightarrow>
             (if From m = [] \<or> To m = [] then Inr (Write c ''502'' [''Missing RCPT TO command.''])
              else
                (let c1 = Write c ''354'' [''Go ahead. End your data with <CR><LF>.<CR><LF>''];
                     m1 = m\<lparr>Data := Some (fst (newDataReader s c1))\<rparr>;
                     c2 = c1\<lparr>msg := Some m1\<rparr>
                 in case User c2 of
                      None \<Rightarrow> Inl (NilDereference, c2)
                    | Some u \<Rightarrow>
                        (case Send u m1 (reader c2) of
                           (result, unread) \<Rightarrow>
                             (case result of
                                None \<Rightarrow>
                                  Inr (reset (Write (c2\<lparr>reader := unread\<rparr>) ''250''
                                                [''Ok: queued'']))
                              | Some (smtpError code message) \<Rightarrow>
                                  Inr (reset (Write (c2\<lparr>reader := unread\<rparr>) code [message]))
                              | Some (otherError e) \<Rightarrow>
                                  Inl (NilDereference, c2\<lparr>reader := unread\<rparr>)))))))"

subsection \<open>Dispatch\<close>

text \<open>\<^verbatim>\<open>c.nbrErrors++\<close> on a 64-bit signed integer.\<close>

definition int64 :: "int \<Rightarrow> int" where
  "int64 x = (x + 2 ^ 63) mod 2 ^ 64 - 2 ^ 63"

definition handle :: "server \<Rightarrow> peer \<Rightarrow> string \<Rightarrow> string \<Rightarrow> conn \<Rightarrow> outcome" where
  "handle s p cmd arg c =
     (if cmd = [] then Inr (Write c ''500'' [''Speak up''])
      else if cmd \<in> set [''SEND'', ''SOML'', ''SAML'', ''EXPN'', ''HELP'', ''TURN'']
        then Inr (Write c ''502'' [cmd @ '' command not implemented''])
      else if cmd \<in> set [''HELO'', ''EHLO''] then Inr (handleGreet s (cmd = ''EHLO'') arg c)
      else if cmd = ''MAIL'' then Inr (handleMail s arg c)
      else if cmd = ''RCPT'' then Inr (handleRcpt s arg c)
      else if cmd = ''VRFY''
        then Inr (Write c ''252'' [''Cannot VRFY user, but will accept message''])
      else if cmd = ''NOOP'' then Inr (Write c ''250'' [''I have sucessfully done nothing''])
      else if cmd = ''RSET'' then Inr (Write (reset c) ''250'' [''Session reset''])
      else if cmd = ''DATA'' then handleData s arg c
      else if cmd = ''QUIT'' then Inr (Close (Write c ''221'' [''Goodnight and good luck'']))
      else if cmd = ''AUTH'' then handleAuth s arg c
      else if cmd = ''STARTTLS'' then Inr (handleStartTLS s p c)
      else
        (let c1 = Write c ''500'' [''Syntax error, '' @ cmd @ '' command unrecognized''];
             c2 = c1\<lparr>nbrErrors := int64 (nbrErrors c1 + 1)\<rparr>
         in if nbrErrors c2 > 3
            then Inr (Close (Write c2 ''500'' [''Too many unrecognized commands'']))
            else Inr c2))"

text \<open>The verbs that \<^verbatim>\<open>handle\<close> dispatches to a handler of their own.\<close>

definition known_verbs :: "string list" where
  "known_verbs =
     [''SEND'', ''SOML'', ''SAML'', ''EXPN'', ''HELP'', ''TURN'', ''HELO'', ''EHLO'', ''MAIL'',
      ''RCPT'', ''VRFY'', ''NOOP'', ''RSET'', ''DATA'', ''QUIT'', ''AUTH'', ''STARTTLS'']"

text \<open>
  Modelled from the spec: the command loop that calls \<^verbatim>\<open>handle\<close> is not in
  \<^verbatim>\<open>conn.go\<close>. ``Each iteration: read one line (on read error, close), split it into
  verb and argument, dispatch.'' Here the commands arrive already split; reading from a
  closed connection fails, which ends the loop, and so does a panic.
\<close>

fun handle_cmds :: "server \<Rightarrow> peer \<Rightarrow> (string \<times> string) list \<Rightarrow> conn \<Rightarrow> outcome" where
  "handle_cmds s p [] c = Inr c"
| "handle_cmds s p ((cmd, arg) # rest) c =
     (if closed c then Inr c
      else (case handle s p cmd arg c of
              Inl e \<Rightarrow> Inl e
            | Inr c1 \<Rightarrow> handle_cmds s p rest c1))"

text \<open>
  The connection states the engine can be in when it dispatches a command: a fresh
  connection, and every state that \<^verbatim>\<open>handle\<close> returns from such a state, for any
  command, any behaviour of the client and any bytes waiting on the transport.
\<close>

inductive reachable :: "server \<Rightarrow> conn \<Rightarrow> bool" for s :: server where
  fresh: "reachable s (newConn input)"
| step: "reachable s c \<Longrightarrow> handle s p cmd arg (c\<lparr>reader := input\<rparr>) = Inr c1 \<Longrightarrow> reachable s c1"

section \<open>An example configuration\<close>

text \<open>
  The backend of the repository's README: one account, \<open>username\<close> with password
  \<open>password\<close>, whose \<^verbatim>\<open>Send\<close> reads the body to its end and returns the reader's
  error, if any.
  The session answers a missing initial response with an empty challenge and logs the
  user in on the PLAIN response of that account.
\<close>

definition example_user :: user where
  "example_user =
     Backend_User ''username''
       (\<lambda>m unread.
          ((case Data m of Some (Inl e) \<Rightarrow> Some e | _ \<Rightarrow> None),
           (case snd (read_body True unread) of None \<Rightarrow> [] | Some rest \<Rightarrow> rest)))"

definition plain_step :: "string option \<Rightarrow> sasl_reply" where
  "plain_step response =
     (case response of
        None \<Rightarrow> \<lparr>challenge = [], sasl_done = False, err = None, login = None\<rparr>
      | Some r \<Rightarrow>
          (if r = CHR 0x00 # ''username'' @ CHR 0x00 # ''password''
           then \<lparr>challenge = [], sasl_done = True, err = None, login = Some example_user\<rparr>
           else \<lparr>challenge = [], sasl_done = False,
                 err = Some ''Invalid username or password'', login = None\<rparr>))"

primcorec plain_session :: sasl where
  "Next plain_session = plain_step"
| "after plain_session = (\<lambda>response. plain_session)"

definition example_server :: server where
  "example_server =
     \<lparr>Domain = ''localhost'', caps = [''PIPELINING'', ''8BITMIME''],
      auths = [(''PLAIN'', plain_session)], TLSConfig = None, AllowInsecureAuth = True,
      MaxMessageBytes = 1024, MaxRecipients = 1\<rparr>"

definition example_peer :: peer where
  "example_peer = \<lparr>handshake_ok = True, tls_stream = []\<rparr>"

text \<open>The states of a session with that server: after \<open>EHLO client\<close>, after a
  successful \<open>AUTH PLAIN\<close>, after \<open>MAIL FROM:<a@b>\<close> and after \<open>RCPT TO:<c@d>\<close>.\<close>

definition example_greeted :: conn where
  "example_greeted =
     \<lparr>helo = ''client'', User = None, msg = None, nbrErrors = 0, tls = False, reader = [],
      written = [''250-Hello client'' @ CRLF, ''250-PIPELINING'' @ CRLF,
                 ''250-8BITMIME'' @ CRLF, ''250-AUTH PLAIN'' @ CRLF, ''250 SIZE 1024'' @ CRLF],
      closed = False, logouts = []\<rparr>"

definition example_authed :: conn where
  "example_authed =
     example_greeted
       \<lparr>User := Some example_user, msg := Some \<lparr>From = [], To = [], Data = None\<rparr>,
        written := written example_greeted @ [''235 Authentication succeeded'' @ CRLF]\<rparr>"

definition example_mail :: conn where
  "example_mail =
     example_authed
       \<lparr>msg := Some \<lparr>From = ''a@b'', To = [], Data = None\<rparr>,
        written := written example_authed @ [''250 Roger, accepting mail from <a@b>'' @ CRLF]\<rparr>"

definition example_rcpt :: conn where
  "example_rcpt =
     example_mail
       \<lparr>msg := Some \<lparr>From = ''a@b'', To = [''c@d''], Data = None\<rparr>,
        written := written example_mail
                   @ [''250 I'' @ [CHR 0x27] @ ''ll make sure <c@d> gets this'' @ CRLF]\<rparr>"

section \<open>Predicates of the specification\<close>

text \<open>``\<open>envelope\<close> non-empty implies \<open>user\<close> non-empty implies \<open>helo_domain\<close>
  non-empty.''\<close>

definition chain :: "conn \<Rightarrow> bool" where
  "chain c \<longleftrightarrow> (msg c \<noteq> None \<longrightarrow> User c \<noteq> None) \<and> (User c \<noteq> None \<longrightarrow> helo c \<noteq> [])"

text \<open>``\<open>envelope.to\<close> non-empty implies \<open>envelope.from\<close> non-empty.''\<close>

definition envelope_ok :: "conn \<Rightarrow> bool" where
  "envelope_ok c \<longleftrightarrow> (case msg c of None \<Rightarrow> True | Some m \<Rightarrow> To m \<noteq> [] \<longrightarrow> From m \<noteq> [])"

text \<open>A body as the lines it is made of, each ended by CRLF.\<close>

definition join_lines :: "string list \<Rightarrow> string" where
  "join_lines ls = concat (map (\<lambda>l. l @ CRLF) ls)"

fun has_CRLF :: "string \<Rightarrow> bool" where
  "has_CRLF (a # b # cs) = ((a = CHR 0x0D \<and> b = CHR 0x0A) \<or> has_CRLF (b # cs))"
| "has_CRLF _ = False"

text \<open>Dot-unstuffing of one line: a leading dot is removed.\<close>

definition unstuff :: "string \<Rightarrow> string" where
  "unstuff l = (case l of [] \<Rightarrow> [] | c # cs \<Rightarrow> if c = CHR ''.'' then cs else l)"

text \<open>
  The transformation in the words of the round-trip property of the specification: the
  input ``with CRLF.. replaced by CRLF.'', every occurrence from left to right.
\<close>

fun replace_stuffed :: "string \<Rightarrow> string" where
  "replace_stuffed (a # b # c # d # rest) =
     (if [a, b, c, d] = CRLF @ ''..'' then a # b # c # replace_stuffed rest
      else a # replace_stuffed (b # c # d # rest))"
| "replace_stuffed s = s"

text \<open>Whether \<open>pat\<close> occurs in a byte string.\<close>

fun occurs_in :: "string \<Rightarrow> string \<Rightarrow> bool" where
  "occurs_in pat [] = (pat = [])"
| "occurs_in pat (x # xs) = (take (length pat) (x # xs) = pat \<or> occurs_in pat xs)"

section \<open>Frame lemmas and invariants\<close>

lemma Write_fields [simp]:
  "helo (Write c code text) = helo c"
  "User (Write c code text) = User c"
  "msg (Write c code text) = msg c"
  "tls (Write c code text) = tls c"
  "reader (Write c code text) = reader c"
  "closed (Write c code text) = closed c"
  "logouts (Write c code text) = logouts c"
  "nbrErrors (Write c code text) = nbrErrors c"
  by (simp_all add: Write_def)

lemma logout_fields [simp]:
  "helo (logout c) = helo c"
  "User (logout c) = User c"
  "msg (logout c) = msg c"
  "written (logout c) = written c"
  by (simp_all add: logout_def split: option.splits)

lemma fields_from_nonempty: "[] \<notin> set (fields_from cur s)"
  by (induction s arbitrary: cur) auto

lemma parseHelloArgument_nonempty: "parseHelloArgument arg = Some d \<Longrightarrow> d \<noteq> []"
  using fields_from_nonempty [of "[]" arg]
  by (auto simp: parseHelloArgument_def Fields_def split: list.splits)

lemma FindStringSubmatch_nonempty: "FindStringSubmatch arg = Some (from, params) \<Longrightarrow> from \<noteq> []"
  by (auto simp: FindStringSubmatch_def Let_def split: if_splits list.splits)



lemma auth_loop_frame:
  "auth_loop session response c = (c1, finished) \<Longrightarrow>
     helo c1 = helo c \<and> msg c1 = msg c \<and> (User c \<noteq> None \<longrightarrow> User c1 \<noteq> None)"
proof (induction session response c arbitrary: c1 finished rule: auth_loop.induct)
  case (1 session response c)
  define r where "r = Next session response"
  define ca where "ca = (case login r of None \<Rightarrow> c | Some u \<Rightarrow> c\<lparr>User := Some u\<rparr>)"
  define enc where
    "enc = (if 0 < length (challenge r) then EncodeToString (challenge r) else [])"
  define cb where "cb = Write ca ''334'' [enc]"
  have ca: "helo ca = helo c" "msg ca = msg c" "User c \<noteq> None \<longrightarrow> User ca \<noteq> None"
    by (auto simp: ca_def split: option.splits)
  have cb: "helo cb = helo c" "msg cb = msg c" "User c \<noteq> None \<longrightarrow> User cb \<noteq> None"
    using ca by (auto simp: cb_def)
  have eq: "auth_loop session response c =
      (case err r of
         Some e \<Rightarrow> (Write ca ''454'' [e], False)
       | None \<Rightarrow>
          (if sasl_done r then (ca, True)
           else (case scan_line (reader c) of
                   None \<Rightarrow> (cb, False)
                 | Some (line, rest) \<Rightarrow>
                     (if line \<noteq> [] then
                        (case DecodeString line of
                           None \<Rightarrow> (Write (cb\<lparr>reader := rest\<rparr>) ''454'' [''Invalid base64 data''], False)
                         | Some bytes \<Rightarrow> auth_loop (after session response) (Some bytes) (cb\<lparr>reader := rest\<rparr>))
                      else auth_loop (after session response) response (cb\<lparr>reader := rest\<rparr>)))))"
    unfolding r_def ca_def enc_def cb_def
    by (subst auth_loop.simps) (simp add: Let_def split: option.splits prod.splits)
  show ?case
  proof (cases "err r")
    case (Some e)
    with eq "1.prems" ca show ?thesis by auto
  next
    case None
    note noerr = None
    show ?thesis
    proof (cases "sasl_done r")
      case True
      with eq "1.prems" ca noerr show ?thesis by auto
    next
      case False
      note notdone = False
      show ?thesis
      proof (cases "scan_line (reader c)")
        case None
        with eq "1.prems" cb noerr notdone show ?thesis by auto
      next
        case (Some lr)
        obtain line rest where lr: "(line, rest) = lr" by (cases lr) auto
        show ?thesis
        proof (cases "line = []")
          case True
          then have nn: "\<not> line \<noteq> []" by simp
          have call: "auth_loop (after session response) response (cb\<lparr>reader := rest\<rparr>) = (c1, finished)"
            using eq "1.prems" noerr notdone Some lr True by auto
          from "1.IH"(2) [OF r_def ca_def noerr notdone enc_def cb_def Some lr nn call]
          show ?thesis using cb by auto
        next
          case False
          note ne = False
          show ?thesis
          proof (cases "DecodeString line")
            case None
            with eq "1.prems" cb noerr notdone Some lr ne show ?thesis by auto
          next
            case (Some bytes)
            have call: "auth_loop (after session response) (Some bytes) (cb\<lparr>reader := rest\<rparr>) = (c1, finished)"
              using eq "1.prems" noerr notdone \<open>scan_line (reader c) = Some lr\<close> lr ne Some by auto
            from "1.IH"(1) [OF r_def ca_def noerr notdone enc_def cb_def \<open>scan_line (reader c) = Some lr\<close> lr ne Some call]
            show ?thesis using cb by auto
          qed
        qed
      qed
    qed
  qed
qed


lemma reset_fields [simp]:
  "helo (reset c) = []" "User (reset c) = None" "msg (reset c) = None"
  by (simp_all add: reset_def)

lemma Close_fields [simp]:
  "helo (Close c) = helo c" "User (Close c) = User c" "msg (Close c) = msg c"
  by (simp_all add: Close_def)

lemma chain_Write [simp]: "chain (Write c code text) = chain c"
  by (simp add: chain_def)

lemma envelope_ok_Write [simp]: "envelope_ok (Write c code text) = envelope_ok c"
  by (simp add: envelope_ok_def)

lemma chain_reset [simp]: "chain (reset c)"
  by (simp add: chain_def)

lemma envelope_ok_reset [simp]: "envelope_ok (reset c)"
  by (simp add: envelope_ok_def)

lemma chain_Close [simp]: "chain (Close c) = chain c"
  by (simp add: chain_def)

lemma envelope_ok_Close [simp]: "envelope_ok (Close c) = envelope_ok c"
  by (simp add: envelope_ok_def)

lemma handleGreet_chain: "chain c \<Longrightarrow> chain (handleGreet s enhanced arg c)"
  by (auto simp: handleGreet_def chain_def Let_def
      dest: parseHelloArgument_nonempty split: option.splits)

lemma handleGreet_envelope: "envelope_ok c \<Longrightarrow> envelope_ok (handleGreet s enhanced arg c)"
  by (auto simp: handleGreet_def envelope_ok_def Let_def split: option.splits)

lemma handleMail_chain: "chain c \<Longrightarrow> chain (handleMail s arg c)"
  by (auto simp: handleMail_def chain_def Let_def split: option.splits)

lemma handleMail_envelope: "envelope_ok c \<Longrightarrow> envelope_ok (handleMail s arg c)"
  by (auto simp: handleMail_def envelope_ok_def Let_def
      dest: FindStringSubmatch_nonempty split: option.splits)

lemma handleRcpt_chain: "chain c \<Longrightarrow> chain (handleRcpt s arg c)"
  by (auto simp: handleRcpt_def chain_def Let_def split: option.splits)

lemma handleRcpt_envelope: "envelope_ok c \<Longrightarrow> envelope_ok (handleRcpt s arg c)"
  by (auto simp: handleRcpt_def envelope_ok_def Let_def split: option.splits)

lemma handleStartTLS_chain: "chain c \<Longrightarrow> chain (handleStartTLS s p c)"
  by (auto simp: handleStartTLS_def Let_def)

lemma handleStartTLS_envelope: "envelope_ok c \<Longrightarrow> envelope_ok (handleStartTLS s p c)"
  by (auto simp: handleStartTLS_def Let_def)

lemma handleData_chain: "handleData s arg c = Inr c1 \<Longrightarrow> chain c \<Longrightarrow> chain c1"
  by (auto simp: handleData_def Let_def
      split: option.splits if_splits go_error.splits prod.splits)

lemma handleData_envelope:
  "handleData s arg c = Inr c1 \<Longrightarrow> envelope_ok c \<Longrightarrow> envelope_ok c1"
  by (auto simp: handleData_def Let_def
      split: option.splits if_splits go_error.splits prod.splits)

lemma run_sasl_chain:
  assumes "helo c \<noteq> []" and "chain c"
  shows "chain (run_sasl session response c)"
proof -
  obtain c2 finished where al: "auth_loop session response c = (c2, finished)"
    by (cases "auth_loop session response c") auto
  from auth_loop_frame [OF al] assms show ?thesis
    by (auto simp: run_sasl_def al chain_def split: option.splits)
qed

lemma run_sasl_envelope:
  assumes "envelope_ok c"
  shows "envelope_ok (run_sasl session response c)"
proof -
  obtain c2 finished where al: "auth_loop session response c = (c2, finished)"
    by (cases "auth_loop session response c") auto
  from auth_loop_frame [OF al] assms show ?thesis
    by (auto simp: run_sasl_def al envelope_ok_def split: option.splits)
qed

lemma handleAuth_chain: "handleAuth s arg c = Inr c1 \<Longrightarrow> chain c \<Longrightarrow> chain c1"
  by (auto simp: handleAuth_def split: if_splits list.splits option.splits
      intro: run_sasl_chain)

lemma handleAuth_envelope:
  "handleAuth s arg c = Inr c1 \<Longrightarrow> envelope_ok c \<Longrightarrow> envelope_ok c1"
  by (auto simp: handleAuth_def split: if_splits list.splits option.splits
      intro: run_sasl_envelope)

lemma chain_nbrErrors [simp]: "chain (c\<lparr>nbrErrors := n\<rparr>) = chain c"
  by (simp add: chain_def)

lemma envelope_ok_nbrErrors [simp]: "envelope_ok (c\<lparr>nbrErrors := n\<rparr>) = envelope_ok c"
  by (simp add: envelope_ok_def)

lemma chain_reader [simp]: "chain (c\<lparr>reader := r\<rparr>) = chain c"
  by (simp add: chain_def)

lemma envelope_ok_reader [simp]: "envelope_ok (c\<lparr>reader := r\<rparr>) = envelope_ok c"
  by (simp add: envelope_ok_def)

lemma handle_chain_aux:
  assumes "chain c"
  shows "case handle s p cmd arg c of Inl e \<Rightarrow> True | Inr c1 \<Rightarrow> chain c1"
proof -
  have d: "case handleData s arg c of Inl e \<Rightarrow> True | Inr c1 \<Rightarrow> chain c1"
    using assms by (auto split: sum.splits intro: handleData_chain)
  have a: "case handleAuth s arg c of Inl e \<Rightarrow> True | Inr c1 \<Rightarrow> chain c1"
    using assms by (auto split: sum.splits intro: handleAuth_chain)
  show ?thesis
    using assms d a
    by (simp add: handle_def Let_def handleGreet_chain handleMail_chain handleRcpt_chain
        handleStartTLS_chain)
qed

lemma handle_chain: "handle s p cmd arg c = Inr c1 \<Longrightarrow> chain c \<Longrightarrow> chain c1"
  using handle_chain_aux [of c s p cmd arg] by simp

lemma handle_envelope_aux:
  assumes "envelope_ok c"
  shows "case handle s p cmd arg c of Inl e \<Rightarrow> True | Inr c1 \<Rightarrow> envelope_ok c1"
proof -
  have d: "case handleData s arg c of Inl e \<Rightarrow> True | Inr c1 \<Rightarrow> envelope_ok c1"
    using assms by (auto split: sum.splits intro: handleData_envelope)
  have a: "case handleAuth s arg c of Inl e \<Rightarrow> True | Inr c1 \<Rightarrow> envelope_ok c1"
    using assms by (auto split: sum.splits intro: handleAuth_envelope)
  show ?thesis
    using assms d a
    by (simp add: handle_def Let_def handleGreet_envelope handleMail_envelope
        handleRcpt_envelope handleStartTLS_envelope)
qed

lemma handle_envelope: "handle s p cmd arg c = Inr c1 \<Longrightarrow> envelope_ok c \<Longrightarrow> envelope_ok c1"
  using handle_envelope_aux [of c s p cmd arg] by simp

lemma reachable_chain: "reachable s c \<Longrightarrow> chain c"
proof (induction rule: reachable.induct)
  case (fresh input)
  show ?case by (simp add: chain_def newConn_def)
next
  case (step c p cmd arg input c1)
  from step.hyps(2) show ?case
    by (rule handle_chain) (simp add: step.IH)
qed

lemma reachable_envelope: "reachable s c \<Longrightarrow> envelope_ok c"
proof (induction rule: reachable.induct)
  case (fresh input)
  show ?case by (simp add: envelope_ok_def newConn_def)
next
  case (step c p cmd arg input c1)
  from step.hyps(2) show ?case
    by (rule handle_envelope) (simp add: step.IH)
qed

section \<open>Replies of the commands other than AUTH\<close>

text \<open>Every command other than \<open>AUTH\<close> that \<^verbatim>\<open>handle\<close> completes writes at least one
  reply line.\<close>

lemma length_written_Write:
  "length (written (Write c code text)) = length (written c) + length (butlast text) + 1"
  by (simp add: Write_def)

lemma written_reset [simp]: "written (reset c) = written c"
  by (simp add: reset_def)

lemma written_Close [simp]: "written (Close c) = written c"
  by (simp add: Close_def)

lemma handleGreet_replies: "length (written c) < length (written (handleGreet s enhanced arg c))"
  by (simp add: handleGreet_def Write_def Let_def split: option.splits)

lemma handleMail_replies: "length (written c) < length (written (handleMail s arg c))"
  by (simp add: handleMail_def Write_def Let_def split: option.splits)

lemma handleRcpt_replies: "length (written c) < length (written (handleRcpt s arg c))"
  by (simp add: handleRcpt_def Write_def Let_def split: option.splits)

lemma handleStartTLS_replies: "length (written c) < length (written (handleStartTLS s p c))"
  by (simp add: handleStartTLS_def Write_def Let_def)

lemma handleData_replies:
  "case handleData s arg c of Inl e \<Rightarrow> True
   | Inr c1 \<Rightarrow> length (written c) < length (written c1)"
  by (simp add: handleData_def Write_def Let_def
      split: option.splits go_error.splits prod.splits)

lemma replies_written_unless_auth:
  assumes "cmd \<noteq> ''AUTH''" and "handle s p cmd arg c = Inr c1"
  shows "length (written c) < length (written c1)"
proof -
  have "case handle s p cmd arg c of Inl e \<Rightarrow> True
        | Inr c1 \<Rightarrow> length (written c) < length (written c1)"
    using assms(1) handleData_replies [where s = s and arg = arg and c = c]
    by (simp add: handle_def Let_def handleGreet_replies handleMail_replies
        handleRcpt_replies handleStartTLS_replies length_written_Write)
  with assms(2) show ?thesis by simp
qed

section \<open>Evaluation of the library functions on the inputs of the examples\<close>

lemma itoa_1024: "itoa 1024 = ''1024''" by code_simp
lemma itoa_1: "itoa 1 = ''1''" by code_simp
lemma Fields_client: "Fields ''client'' = [''client'']" by code_simp
lemma Fields_plain_ir:
  "Fields ''PLAIN AHVzZXJuYW1lAHBhc3N3b3Jk'' = [''PLAIN'', ''AHVzZXJuYW1lAHBhc3N3b3Jk'']"
  by code_simp
lemma Decode_plain_ir:
  "DecodeString ''AHVzZXJuYW1lAHBhc3N3b3Jk'' =
     Some (CHR 0x00 # ''username'' @ CHR 0x00 # ''password'')"
  by code_simp
lemma ToUpper_PLAIN: "ToUpper ''PLAIN'' = ''PLAIN''" by code_simp
lemma ToUpper_FOO: "ToUpper ''FOO'' = ''FOO''" by code_simp
lemma ToUpper_SIZE: "ToUpper ''SIZE'' = ''SIZE''" by code_simp
lemma ToUpper_TO: "ToUpper ''TO:'' = ''TO:''" by code_simp
lemma Submatch_a_b: "FindStringSubmatch ''FROM:<a@b>'' = Some (''a@b'', [])" by code_simp
lemma Submatch_a_b_size:
  "FindStringSubmatch ''FROM:<a@b> SIZE=2048'' = Some (''a@b'', '' SIZE=2048'')" by code_simp
lemma split_spaces_size: "split_spaces [] '' SIZE=2048'' = [''SIZE=2048'']" by code_simp
lemma ParseInt32_2048: "ParseInt32 ''2048'' = Some 2048" by code_simp
lemma Trim_c_d: "Trim ''<c@d>'' ''<> '' = ''c@d''" by code_simp
lemma Fields_plain_bad: "Fields ''PLAIN !!!!'' = [''PLAIN'', ''!!!!'']" by code_simp
lemma Fields_foo_bad: "Fields ''FOO !!!!'' = [''FOO'', ''!!!!'']" by code_simp
lemma Fields_foo_ok: "Fields ''FOO AA=='' = [''FOO'', ''AA=='']" by code_simp
lemma Decode_bad: "DecodeString ''!!!!'' = None" by code_simp
lemma Decode_ok: "DecodeString ''AA=='' = Some [CHR 0x00]" by code_simp
lemma ascii_foo_ok: "is_ascii ''FOO AA==''" by code_simp

lemma parseArgs_size: "parseArgs '' SIZE=2048'' = Some [''SIZE'' \<mapsto> ''2048'']"
  by (simp add: parseArgs_def split_spaces_size ToUpper_SIZE)

section \<open>The example session\<close>

lemma reachable_stepI:
  "reachable s c \<Longrightarrow> handle s p cmd arg c = Inr c1 \<Longrightarrow> reachable s c1"
  using reachable.step [of s c p cmd arg "reader c" c1] by simp

lemma ex_step1:
  "handle example_server example_peer ''EHLO'' ''client'' (newConn []) = Inr example_greeted"
  by (simp add: handle_def handleGreet_def example_server_def newConn_def example_greeted_def
      Write_def parseHelloArgument_def authCap_def itoa_1024 Fields_client)

lemma ex_step2:
  "handle example_server example_peer ''AUTH'' ''PLAIN AHVzZXJuYW1lAHBhc3N3b3Jk'' example_greeted
     = Inr example_authed"
  by (simp add: handle_def handleAuth_def run_sasl_def example_server_def example_greeted_def
      example_authed_def Write_def Fields_plain_ir Decode_plain_ir ToUpper_PLAIN
      auth_loop.simps plain_step_def)

lemma ex_step3:
  "handle example_server example_peer ''MAIL'' ''FROM:<a@b>'' example_authed = Inr example_mail"
  by (simp add: handle_def handleMail_def example_server_def example_greeted_def
      example_authed_def example_mail_def Write_def Submatch_a_b)

lemma ex_step4:
  "handle example_server example_peer ''RCPT'' ''TO:<c@d>'' example_mail = Inr example_rcpt"
  by (simp add: handle_def handleRcpt_def example_server_def example_greeted_def
      example_authed_def example_mail_def example_rcpt_def Write_def ToUpper_TO Trim_c_d)

lemma reachable_greeted: "reachable example_server example_greeted"
  by (rule reachable_stepI [OF reachable.fresh ex_step1])

lemma reachable_authed: "reachable example_server example_authed"
  by (rule reachable_stepI [OF reachable_greeted ex_step2])

lemma reachable_mail: "reachable example_server example_mail"
  by (rule reachable_stepI [OF reachable_authed ex_step3])

lemma reachable_rcpt: "reachable example_server example_rcpt"
  by (rule reachable_stepI [OF reachable_mail ex_step4])

section \<open>Properties of the engine\<close>

text \<open>
  Claim C1. ``For every command line the engine accepts, it writes at least one reply line
  before reading the next command; in particular this holds for every AUTH command,
  whatever its mechanism and initial-response tokens are.'' The code does not: after
  \<open>EHLO client\<close>, the command \<open>AUTH PLAIN !!!!\<close>, whose initial response is not
  base64, returns without writing anything and leaves the connection as it was. The same
  decoding failure inside the loop is answered with 454, and every command other than
  \<open>AUTH\<close> does write a reply (\<open>replies_written_unless_auth\<close>).
\<close>

theorem auth_bad_initial_response_silent:
  "handle example_server example_peer ''AUTH'' ''PLAIN !!!!'' example_greeted
     = Inr example_greeted"
  by (simp add: handle_def handleAuth_def example_greeted_def Fields_plain_bad Decode_bad)

text \<open>
  Claim C2, as amended. Every unrecognized verb elicits a 500 ``unrecognized'' reply and
  increments \<open>nbrErrors\<close>; when the incremented counter exceeds 3 the server also
  replies ``500 Too many unrecognized commands'' and closes the connection. On a fresh
  connection three repetitions of \<open>FOOBAR\<close> elicit one 500 reply each, and the fourth
  repetition elicits its 500 reply, the overflow reply and the close.
\<close>

theorem unknown_verb_counted:
  assumes "cmd \<noteq> []" and "cmd \<notin> set known_verbs"
  shows "handle s p cmd arg c =
           Inr (if 3 < int64 (nbrErrors c + 1)
                then Close (Write
                       ((Write c ''500'' [''Syntax error, '' @ cmd @ '' command unrecognized''])
                          \<lparr>nbrErrors := int64 (nbrErrors c + 1)\<rparr>)
                       ''500'' [''Too many unrecognized commands''])
                else (Write c ''500'' [''Syntax error, '' @ cmd @ '' command unrecognized''])
                       \<lparr>nbrErrors := int64 (nbrErrors c + 1)\<rparr>)
         \<and> handle_cmds s p [(''FOOBAR'', []), (''FOOBAR'', []), (''FOOBAR'', [])] (newConn input) =
           Inr ((newConn input)
                  \<lparr>nbrErrors := 3,
                   written := [''500 Syntax error, FOOBAR command unrecognized'' @ CRLF,
                               ''500 Syntax error, FOOBAR command unrecognized'' @ CRLF,
                               ''500 Syntax error, FOOBAR command unrecognized'' @ CRLF]\<rparr>)
         \<and> handle_cmds s p [(''FOOBAR'', []), (''FOOBAR'', []), (''FOOBAR'', []), (''FOOBAR'', [])]
             (newConn input) =
           Inr ((newConn input)
                  \<lparr>nbrErrors := 4,
                   written := [''500 Syntax error, FOOBAR command unrecognized'' @ CRLF,
                               ''500 Syntax error, FOOBAR command unrecognized'' @ CRLF,
                               ''500 Syntax error, FOOBAR command unrecognized'' @ CRLF,
                               ''500 Syntax error, FOOBAR command unrecognized'' @ CRLF,
                               ''500 Too many unrecognized commands'' @ CRLF],
                   closed := True\<rparr>)"
proof -
  have general: "handle s p cmd arg c =
           Inr (if 3 < int64 (nbrErrors c + 1)
                then Close (Write
                       ((Write c ''500'' [''Syntax error, '' @ cmd @ '' command unrecognized''])
                          \<lparr>nbrErrors := int64 (nbrErrors c + 1)\<rparr>)
                       ''500'' [''Too many unrecognized commands''])
                else (Write c ''500'' [''Syntax error, '' @ cmd @ '' command unrecognized''])
                       \<lparr>nbrErrors := int64 (nbrErrors c + 1)\<rparr>)"
    if "cmd \<noteq> []" and "cmd \<notin> set known_verbs" for cmd arg c
    using that by (simp add: handle_def known_verbs_def Let_def)
  have foobar: "''FOOBAR'' \<noteq> []" "''FOOBAR'' \<notin> set known_verbs"
    by (simp_all add: known_verbs_def)
  have three: "handle_cmds s p [(''FOOBAR'', []), (''FOOBAR'', []), (''FOOBAR'', [])] (newConn input) =
           Inr ((newConn input)
                  \<lparr>nbrErrors := 3,
                   written := [''500 Syntax error, FOOBAR command unrecognized'' @ CRLF,
                               ''500 Syntax error, FOOBAR command unrecognized'' @ CRLF,
                               ''500 Syntax error, FOOBAR command unrecognized'' @ CRLF]\<rparr>)"
    by (simp add: general [OF foobar] newConn_def Write_def int64_def)
  have four: "handle_cmds s p [(''FOOBAR'', []), (''FOOBAR'', []), (''FOOBAR'', []), (''FOOBAR'', [])]
             (newConn input) =
           Inr ((newConn input)
                  \<lparr>nbrErrors := 4,
                   written := [''500 Syntax error, FOOBAR command unrecognized'' @ CRLF,
                               ''500 Syntax error, FOOBAR command unrecognized'' @ CRLF,
                               ''500 Syntax error, FOOBAR command unrecognized'' @ CRLF,
                               ''500 Syntax error, FOOBAR command unrecognized'' @ CRLF,
                               ''500 Too many unrecognized commands'' @ CRLF],
                   closed := True\<rparr>)"
    by (simp add: general [OF foobar] newConn_def Write_def Close_def logout_def int64_def)
  from general [OF assms] three four show ?thesis by blast
qed

text \<open>The theorem at \<open>FOOBAR\<close>, sent after \<open>EHLO client\<close>.\<close>

theorem unknown_verb_counted_witness:
  "''FOOBAR'' \<noteq> [] \<and> ''FOOBAR'' \<notin> set known_verbs \<and>
   handle example_server example_peer ''FOOBAR'' [] example_greeted =
     Inr (example_greeted
            \<lparr>nbrErrors := 1,
             written := written example_greeted
                        @ [''500 Syntax error, FOOBAR command unrecognized'' @ CRLF]\<rparr>)"
proof -
  have h: "''FOOBAR'' \<noteq> []" "''FOOBAR'' \<notin> set known_verbs"
    by (simp_all add: known_verbs_def)
  from unknown_verb_counted [OF h, of example_server example_peer "[]" example_greeted]
  show ?thesis
    using h by (simp add: example_greeted_def Write_def int64_def)
qed

text \<open>
  Claim C2 as stated (``four repetitions of FOOBAR elicit four 500 replies, and the fifth
  repetition triggers the overflow reply and connection close'') fails: after four
  repetitions five reply lines are written, the last being the overflow reply, and the
  connection is closed.
\<close>

theorem fourth_unknown_command_closes:
  "handle_cmds example_server example_peer
     [(''FOOBAR'', []), (''FOOBAR'', []), (''FOOBAR'', []), (''FOOBAR'', [])] (newConn []) =
   Inr \<lparr>helo = [], User = None, msg = None, nbrErrors = 4, tls = False, reader = [],
        written = [''500 Syntax error, FOOBAR command unrecognized'' @ CRLF,
                   ''500 Syntax error, FOOBAR command unrecognized'' @ CRLF,
                   ''500 Syntax error, FOOBAR command unrecognized'' @ CRLF,
                   ''500 Syntax error, FOOBAR command unrecognized'' @ CRLF,
                   ''500 Too many unrecognized commands'' @ CRLF],
        closed = True, logouts = []\<rparr>"
  by (simp add: handle_def Let_def newConn_def Write_def Close_def logout_def int64_def)

text \<open>
  Claim C3 as stated (``when a DATA command completes, only the envelope is cleared:
  \<open>helo_domain\<close> remains set and the authenticated user remains logged in'') fails: after
  \<open>EHLO\<close>, \<open>AUTH\<close>, \<open>MAIL\<close>, \<open>RCPT\<close> and a \<open>DATA\<close> with body \<open>Hi\<close> that the
  backend accepts, \<open>helo\<close> is empty, \<open>User\<close> is nil and the user was logged out.
\<close>

theorem data_resets_helo_and_user:
  "handle example_server example_peer ''DATA'' []
     (example_rcpt\<lparr>reader := ''Hi'' @ CRLF @ ''.'' @ CRLF\<rparr>) =
   Inr (example_rcpt
          \<lparr>helo := [], User := None, msg := None, reader := [],
           written := written example_rcpt
                      @ [''354 Go ahead. End your data with <CR><LF>.<CR><LF>'' @ CRLF,
                         ''250 Ok: queued'' @ CRLF],
           logouts := [example_user]\<rparr>)"
  by (simp add: handle_def handleData_def Let_def newDataReader_def example_rcpt_def
      example_mail_def example_authed_def example_greeted_def example_server_def
      example_user_def Write_def reset_def logout_def CRLF_def)

text \<open>
  Claim C3, as amended. When a DATA command is accepted (an envelope with sender and at
  least one recipient, a user logged in) and the backend delivery returns with success or
  with an error that carries its own reply code and text, the server writes the 354 reply
  and one terminal reply (250, or that code and text) and then resets the whole session:
  \<open>helo_domain\<close>, the user (who is logged out) and the envelope are all cleared.
\<close>

theorem data_completion_resets_session:
  assumes "msg c = Some m" and "From m \<noteq> []" and "To m \<noteq> []" and "User c = Some u"
    and "Send u (m\<lparr>Data := Some (fst (newDataReader s c))\<rparr>) (reader c) = (result, unread)"
    and "case result of None \<Rightarrow> True | Some e \<Rightarrow> is_smtpError e"
  shows "handle s p ''DATA'' [] c =
           Inr (c\<lparr>helo := [], User := None, msg := None, reader := unread,
                  written := written c
                    @ [''354 Go ahead. End your data with <CR><LF>.<CR><LF>'' @ CRLF,
                       (case result of
                          None \<Rightarrow> ''250 Ok: queued''
                        | Some e \<Rightarrow> Code e @ '' '' @ Message e)
                       @ CRLF],
                  logouts := logouts c @ [u]\<rparr>)"
proof -
  have same: "newDataReader s (c\<lparr>written := w\<rparr>) = newDataReader s c" for w
    by (simp add: newDataReader_def)
  show ?thesis
    using assms
    by (cases result)
       (auto simp: handle_def handleData_def Let_def same Write_def reset_def logout_def
             split: go_error.splits)
qed

text \<open>The theorem at the example session and an empty body, which the backend accepts.\<close>

theorem data_completion_resets_session_witness:
  "msg example_rcpt = Some \<lparr>From = ''a@b'', To = [''c@d''], Data = None\<rparr> \<and>
   ''a@b'' \<noteq> [] \<and> [''c@d''] \<noteq> [] \<and> User example_rcpt = Some example_user \<and>
   Send example_user \<lparr>From = ''a@b'', To = [''c@d''], Data = Some (Inr [])\<rparr>
     (''.'' @ CRLF @ ''NOOP'' @ CRLF) = (None, ''NOOP'' @ CRLF) \<and>
   handle example_server example_peer ''DATA'' []
     (example_rcpt\<lparr>reader := ''.'' @ CRLF @ ''NOOP'' @ CRLF\<rparr>) =
     Inr (example_rcpt
            \<lparr>helo := [], User := None, msg := None, reader := ''NOOP'' @ CRLF,
             written := written example_rcpt
                        @ [''354 Go ahead. End your data with <CR><LF>.<CR><LF>'' @ CRLF,
                           ''250 Ok: queued'' @ CRLF],
             logouts := [example_user]\<rparr>)"
proof -
  let ?c = "example_rcpt\<lparr>reader := ''.'' @ CRLF @ ''NOOP'' @ CRLF\<rparr>"
  let ?m = "\<lparr>From = ''a@b'', To = [''c@d''], Data = None\<rparr>"
  have h: "msg ?c = Some ?m" "From ?m \<noteq> []" "To ?m \<noteq> []" "User ?c = Some example_user"
    "Send example_user (?m\<lparr>Data := Some (fst (newDataReader example_server ?c))\<rparr>) (reader ?c)
       = (None, ''NOOP'' @ CRLF)"
    "case None :: go_error option of None \<Rightarrow> True | Some e \<Rightarrow> is_smtpError e"
    by (simp_all add: newDataReader_def example_server_def example_rcpt_def example_mail_def
        example_authed_def example_greeted_def example_user_def CRLF_def)
  from data_completion_resets_session [OF h, of example_peer]
  show ?thesis
    using h
    by (simp add: newDataReader_def example_server_def example_rcpt_def example_mail_def
        example_authed_def example_greeted_def example_user_def CRLF_def)
qed

text \<open>
  When the delivery returns an error of another kind, \<^verbatim>\<open>handleData\<close> panics after the
  354 reply: in the example session the input ends before the body does, the backend
  returns the reader's end-of-input error, and nothing more is written.
\<close>

lemma data_generic_error_panics:
  "handle example_server example_peer ''DATA'' [] example_rcpt =
     Inl (NilDereference,
          example_rcpt
            \<lparr>msg := Some \<lparr>From = ''a@b'', To = [''c@d''], Data = Some (Inl ErrUnexpectedEOF)\<rparr>,
             written := written example_rcpt
                        @ [''354 Go ahead. End your data with <CR><LF>.<CR><LF>'' @ CRLF]\<rparr>)"
  by (simp add: handle_def handleData_def Let_def newDataReader_def example_rcpt_def
      example_mail_def example_authed_def example_greeted_def example_server_def
      example_user_def Write_def ErrUnexpectedEOF_def)

text \<open>
  Claim C4 as stated (``the server replies 504 for any form of the optional
  initial-response token, including one that is not valid base64'') fails: \<open>FOO\<close> is
  not a mechanism of the example server, and \<open>AUTH FOO !!!!\<close> gets no reply.
\<close>

theorem auth_unknown_mechanism_bad_response_silent:
  "map_of (auths example_server) (ToUpper ''FOO'') = None \<and>
   handle example_server example_peer ''AUTH'' ''FOO !!!!'' example_greeted = Inr example_greeted"
  by (simp add: handle_def handleAuth_def example_greeted_def example_server_def
      Fields_foo_bad Decode_bad ToUpper_FOO)

text \<open>
  Claim C4, as amended. For every AUTH command, with \<open>helo_domain\<close> set and an argument
  of ASCII bytes that holds a mechanism token, whose upper-cased mechanism token is not a
  key of \<open>auths\<close>, the server replies ``504 Unsupported authentication mechanism'' and
  changes nothing else, provided the initial-response token is absent or decodes as
  base64. (On ASCII bytes \<open>Fields\<close> and \<open>ToUpper\<close> are Go's \<^verbatim>\<open>strings.Fields\<close> and
  \<^verbatim>\<open>strings.ToUpper\<close>.)
\<close>

theorem auth_unknown_mechanism:
  assumes "helo c \<noteq> []" and "is_ascii arg" and "Fields arg = p0 # ps"
    and "map_of (auths s) (ToUpper p0) = None"
    and "case ps of [] \<Rightarrow> True | p1 # _ \<Rightarrow> DecodeString p1 \<noteq> None"
  shows "handle s p ''AUTH'' arg c =
           Inr (c\<lparr>written := written c @ [''504 Unsupported authentication mechanism'' @ CRLF]\<rparr>)"
proof -
  from assms(3) have "arg \<noteq> []" by (auto simp: Fields_def)
  with assms show ?thesis
    by (auto simp: handle_def handleAuth_def Write_def split: list.splits)
qed

text \<open>The theorem at \<open>AUTH FOO AA==\<close>, sent after \<open>EHLO client\<close>.\<close>

theorem auth_unknown_mechanism_witness:
  "helo example_greeted \<noteq> [] \<and> is_ascii ''FOO AA=='' \<and>
   Fields ''FOO AA=='' = [''FOO'', ''AA==''] \<and>
   map_of (auths example_server) (ToUpper ''FOO'') = None \<and>
   DecodeString ''AA=='' \<noteq> None \<and>
   handle example_server example_peer ''AUTH'' ''FOO AA=='' example_greeted =
     Inr (example_greeted
            \<lparr>written := written example_greeted
                        @ [''504 Unsupported authentication mechanism'' @ CRLF]\<rparr>)"
proof -
  have h: "helo example_greeted \<noteq> []" "is_ascii ''FOO AA==''"
    "Fields ''FOO AA=='' = [''FOO'', ''AA=='']"
    "map_of (auths example_server) (ToUpper ''FOO'') = None"
    "case [''AA==''] of [] \<Rightarrow> True | p1 # _ \<Rightarrow> DecodeString p1 \<noteq> None"
    by (simp_all add: example_greeted_def example_server_def Fields_foo_ok ToUpper_FOO Decode_ok
        ascii_foo_ok)
  from auth_unknown_mechanism [OF h, of example_peer]
  show ?thesis using h by (simp add: Decode_ok)
qed

text \<open>
  Claim C5. If \<open>MaxRecipients = k > 0\<close> and the envelope of a reachable connection
  already holds \<open>k\<close> recipients, then every further RCPT command with a well-formed
  \<open>TO:\<close> argument elicits the reply 552 and leaves the connection, the recipients
  included, unchanged.
\<close>

theorem rcpt_limit_reached:
  assumes "reachable s c" and "MaxRecipients s = k" and "k > 0"
    and "msg c = Some m" and "int (length (To m)) = k"
    and "length arg \<ge> 4" and "ToUpper (take 3 arg) = ''TO:''"
  shows "handle s p ''RCPT'' arg c =
           Inr (c\<lparr>written := written c
                    @ [''552 Maximum limit of '' @ itoa k @ '' recipients reached'' @ CRLF]\<rparr>)"
proof -
  from assms(3,5) have "To m \<noteq> []" by auto
  moreover from reachable_envelope [OF assms(1)] assms(4)
  have "To m \<noteq> [] \<longrightarrow> From m \<noteq> []" by (simp add: envelope_ok_def)
  ultimately have "From m \<noteq> []" by simp
  with assms show ?thesis
    by (simp add: handle_def handleRcpt_def Write_def)
qed

text \<open>The theorem at the example session, whose server admits one recipient.\<close>

theorem rcpt_limit_reached_witness:
  "reachable example_server example_rcpt \<and> MaxRecipients example_server = 1 \<and> (1::int) > 0 \<and>
   msg example_rcpt = Some \<lparr>From = ''a@b'', To = [''c@d''], Data = None\<rparr> \<and>
   int (length [''c@d'']) = 1 \<and> length ''TO:<x@y>'' \<ge> 4 \<and>
   ToUpper (take 3 ''TO:<x@y>'') = ''TO:'' \<and>
   handle example_server example_peer ''RCPT'' ''TO:<x@y>'' example_rcpt =
     Inr (example_rcpt
            \<lparr>written := written example_rcpt
                        @ [''552 Maximum limit of 1 recipients reached'' @ CRLF]\<rparr>)"
proof -
  have h: "MaxRecipients example_server = 1" "(1::int) > 0"
    "msg example_rcpt = Some \<lparr>From = ''a@b'', To = [''c@d''], Data = None\<rparr>"
    "int (length (To \<lparr>From = ''a@b'', To = [''c@d''], Data = None\<rparr>)) = 1"
    "length ''TO:<x@y>'' \<ge> 4" "ToUpper (take 3 ''TO:<x@y>'') = ''TO:''"
    by (simp_all add: example_server_def example_rcpt_def example_mail_def example_authed_def
        example_greeted_def ToUpper_TO)
  from rcpt_limit_reached [OF reachable_rcpt h, of example_peer]
  show ?thesis using h reachable_rcpt by (simp add: itoa_1)
qed

text \<open>
  Claim C6. If \<open>MaxMessageBytes > 0\<close> and a MAIL command (admitted: \<open>helo_domain\<close> set
  and an envelope present) has an argument that matches the \<open>FROM\<close> syntax and carries
  a parameter \<open>SIZE\<close> whose decimal value, parsed in 32-bit range, exceeds
  \<open>MaxMessageBytes\<close>, the server replies ``552 Max message size exceeded'' and changes
  nothing else: the sender of the envelope is not set.
\<close>

theorem mail_size_exceeded:
  assumes "helo c \<noteq> []" and "msg c = Some m"
    and "FindStringSubmatch arg = Some (from, params)"
    and "parseArgs params = Some args" and "args ''SIZE'' = Some sz"
    and "ParseInt32 sz = Some n"
    and "MaxMessageBytes s > 0" and "n > MaxMessageBytes s"
  shows "handle s p ''MAIL'' arg c =
           Inr (c\<lparr>written := written c @ [''552 Max message size exceeded'' @ CRLF]\<rparr>)"
proof -
  have "params \<noteq> []"
  proof
    assume "params = []"
    with assms(4) have "args = Map.empty" by (simp add: parseArgs_def)
    with assms(5) show False by simp
  qed
  moreover from assms(6) have "sz \<noteq> []" by (auto simp: ParseInt32_def)
  ultimately show ?thesis
    using assms by (simp add: handle_def handleMail_def Write_def)
qed

text \<open>The theorem at \<open>MAIL FROM:<a@b> SIZE=2048\<close> with a limit of 1024 bytes.\<close>

theorem mail_size_exceeded_witness:
  "helo example_authed \<noteq> [] \<and>
   msg example_authed = Some \<lparr>From = [], To = [], Data = None\<rparr> \<and>
   FindStringSubmatch ''FROM:<a@b> SIZE=2048'' = Some (''a@b'', '' SIZE=2048'') \<and>
   parseArgs '' SIZE=2048'' = Some [''SIZE'' \<mapsto> ''2048''] \<and>
   [''SIZE'' \<mapsto> ''2048''] ''SIZE'' = Some ''2048'' \<and>
   ParseInt32 ''2048'' = Some 2048 \<and>
   MaxMessageBytes example_server > 0 \<and> 2048 > MaxMessageBytes example_server \<and>
   handle example_server example_peer ''MAIL'' ''FROM:<a@b> SIZE=2048'' example_authed =
     Inr (example_authed
            \<lparr>written := written example_authed @ [''552 Max message size exceeded'' @ CRLF]\<rparr>)"
proof -
  have h: "helo example_authed \<noteq> []"
    "msg example_authed = Some \<lparr>From = [], To = [], Data = None\<rparr>"
    "FindStringSubmatch ''FROM:<a@b> SIZE=2048'' = Some (''a@b'', '' SIZE=2048'')"
    "parseArgs '' SIZE=2048'' = Some [''SIZE'' \<mapsto> ''2048'']"
    "[''SIZE'' \<mapsto> ''2048''] ''SIZE'' = Some ''2048''"
    "ParseInt32 ''2048'' = Some 2048"
    "MaxMessageBytes example_server > 0" "2048 > MaxMessageBytes example_server"
    by (simp_all add: example_authed_def example_greeted_def example_server_def
        Submatch_a_b_size parseArgs_size ParseInt32_2048)
  from mail_size_exceeded [OF h, of example_peer]
  show ?thesis using h by simp
qed

text \<open>
  Claim C7. Whenever \<open>TLSConfig\<close> is absent, a STARTTLS command in any connection state
  elicits a 502 reply and changes nothing else: the transport, \<open>helo_domain\<close>, the user
  and the envelope stay as they were.
\<close>

theorem starttls_without_tls_config:
  assumes "TLSConfig s = None"
  shows "handle s p ''STARTTLS'' arg c =
           Inr (c\<lparr>written := written c
                    @ [''502 '' @ (if tls c then ''Already running in TLS''
                                  else ''TLS not supported'') @ CRLF]\<rparr>)"
  using assms by (simp add: handle_def handleStartTLS_def Write_def)

text \<open>The theorem at the authenticated example session.\<close>

theorem starttls_without_tls_config_witness:
  "TLSConfig example_server = None \<and>
   handle example_server example_peer ''STARTTLS'' [] example_authed =
     Inr (example_authed
            \<lparr>written := written example_authed @ [''502 TLS not supported'' @ CRLF]\<rparr>)"
proof -
  have h: "TLSConfig example_server = None" by (simp add: example_server_def)
  from starttls_without_tls_config [OF h, of example_peer "[]" example_authed]
  show ?thesis using h by (simp add: example_authed_def example_greeted_def)
qed

text \<open>
  Claim C8. In every reachable connection state an envelope implies a user and a user
  implies a \<open>helo_domain\<close>; and every command that \<^verbatim>\<open>handle\<close> completes, started in a
  state with that property, ends in a state with it.
\<close>

theorem envelope_user_helo_chain:
  "(reachable s c \<longrightarrow> chain c) \<and>
   (chain c \<longrightarrow> handle s p cmd arg c = Inr c1 \<longrightarrow> chain c1)"
  using reachable_chain [of s c] handle_chain [of s p cmd arg c c1] by blast

text \<open>The theorem at the authenticated example session and its \<open>MAIL\<close> command.\<close>

theorem envelope_user_helo_chain_witness:
  "reachable example_server example_authed \<and> chain example_authed \<and>
   msg example_authed \<noteq> None \<and> User example_authed \<noteq> None \<and> helo example_authed \<noteq> [] \<and>
   handle example_server example_peer ''MAIL'' ''FROM:<a@b>'' example_authed = Inr example_mail \<and>
   chain example_mail \<and>
   msg example_mail \<noteq> None \<and> User example_mail \<noteq> None \<and> helo example_mail \<noteq> []"
proof -
  from envelope_user_helo_chain
    [of example_server example_authed example_peer "''MAIL''" "''FROM:<a@b>''" example_mail]
    reachable_authed ex_step3
  have "chain example_authed" and "chain example_mail" by blast+
  moreover have "msg example_authed \<noteq> None" "msg example_mail \<noteq> None"
    by (simp_all add: example_mail_def example_authed_def)
  ultimately show ?thesis
    using reachable_authed ex_step3 by (simp add: chain_def)
qed



section \<open>Properties of the body reader\<close>

lemma take1_after_line:
  assumes "\<not> has_CRLF (CHR 0x0D # l)"
  shows "take 1 (l @ CRLF @ w) \<noteq> [CHR 0x0A]"
  using assms by (cases l) (auto simp: CRLF_def)

lemma has_CRLF_tail: "\<not> has_CRLF (a # l) \<Longrightarrow> \<not> has_CRLF l"
  by (cases l) auto

lemma read_body_mid:
  "\<not> has_CRLF l \<Longrightarrow>
   read_body False (l @ CRLF @ w) =
     (case read_body True w of (body, rest) \<Rightarrow> (l @ CRLF @ body, rest))"
proof (induction l)
  case Nil
  show ?case by (simp add: CRLF_def split: prod.splits)
next
  case (Cons a l)
  from Cons.prems have tail: "\<not> has_CRLF l" by (rule has_CRLF_tail)
  have "\<not> (a = CHR 0x0D \<and> take 1 (l @ CRLF @ w) = [CHR 0x0A])"
    using Cons.prems take1_after_line [of l w] by auto
  then show ?case
    using Cons.IH [OF tail] by (auto split: prod.splits)
qed

lemma take2_after_line:
  assumes "\<not> has_CRLF l" and "l \<noteq> []"
  shows "take 2 (l @ CRLF @ w) \<noteq> CRLF"
proof (cases l)
  case Nil
  with assms show ?thesis by simp
next
  case (Cons a l')
  with assms show ?thesis
    by (cases l') (auto simp: CRLF_def)
qed

lemma read_body_line:
  assumes "\<not> has_CRLF l" and "l \<noteq> ''.''"
  shows "read_body True (l @ CRLF @ w) =
           (case read_body True w of (body, rest) \<Rightarrow> (unstuff l @ CRLF @ body, rest))"
proof (cases l)
  case Nil
  then show ?thesis by (simp add: CRLF_def unstuff_def split: prod.splits)
next
  case (Cons a l')
  from assms(1) Cons have tail: "\<not> has_CRLF l'" by (auto dest: has_CRLF_tail)
  show ?thesis
  proof (cases "a = CHR ''.''")
    case True
    with assms(2) Cons have "l' \<noteq> []" by auto
    with tail have "take 2 (l' @ CRLF @ w) \<noteq> CRLF" by (rule take2_after_line)
    with True Cons show ?thesis
      by (simp add: read_body_mid [OF tail] unstuff_def)
  next
    case False
    have "\<not> (a = CHR 0x0D \<and> take 1 (l' @ CRLF @ w) = [CHR 0x0A])"
      using assms(1) Cons take1_after_line [of l' w] by auto
    with False Cons show ?thesis
      by (auto simp: read_body_mid [OF tail] unstuff_def split: prod.splits)
  qed
qed

lemma read_body_lines:
  "list_all (\<lambda>l. \<not> has_CRLF l \<and> l \<noteq> ''.'') ls \<Longrightarrow>
   read_body True (join_lines ls @ ''.'' @ CRLF @ rest) = (join_lines (map unstuff ls), Some rest)"
proof (induction ls)
  case Nil
  show ?case by (simp add: join_lines_def CRLF_def)
next
  case (Cons l ls)
  then have l: "\<not> has_CRLF l" "l \<noteq> ''.''" and ls: "list_all (\<lambda>l. \<not> has_CRLF l \<and> l \<noteq> ''.'') ls"
    by auto
  have "join_lines (l # ls) @ ''.'' @ CRLF @ rest = l @ CRLF @ (join_lines ls @ ''.'' @ CRLF @ rest)"
    by (simp add: join_lines_def)
  then show ?case
    using read_body_line [OF l, of "join_lines ls @ ''.'' @ CRLF @ rest"] Cons.IH [OF ls]
    by (simp add: join_lines_def)
qed

text \<open>
  Claim C9, as amended. For every wire body made of lines that each end with CRLF, none
  of them consisting of a single dot, and within the size limit, the body delivered to the
  backend equals the wire body with the leading dot removed from every line that begins
  with a dot, the first line included; the bytes after the terminator stay unread.
\<close>

theorem data_reader_round_trip:
  assumes "list_all (\<lambda>l. \<not> has_CRLF l \<and> l \<noteq> ''.'') ls"
    and "MaxMessageBytes s \<le> 0 \<or> int (length (join_lines (map unstuff ls))) \<le> MaxMessageBytes s"
  shows "newDataReader s (c\<lparr>reader := join_lines ls @ ''.'' @ CRLF @ rest\<rparr>) =
           (Inr (join_lines (map unstuff ls)), rest)"
  using assms(2) read_body_lines [OF assms(1), of rest]
  by (auto simp: newDataReader_def)

text \<open>The theorem at the wire body \<open>..foo\<close> CRLF, followed by the terminator: the
  delivered body is \<open>.foo\<close> CRLF.\<close>

theorem data_reader_round_trip_witness:
  "list_all (\<lambda>l. \<not> has_CRLF l \<and> l \<noteq> ''.'') [''..foo''] \<and>
   int (length (join_lines (map unstuff [''..foo'']))) \<le> MaxMessageBytes example_server \<and>
   newDataReader example_server (example_rcpt\<lparr>reader := ''..foo'' @ CRLF @ ''.'' @ CRLF\<rparr>) =
     (Inr (''.foo'' @ CRLF), [])"
proof -
  have h: "list_all (\<lambda>l. \<not> has_CRLF l \<and> l \<noteq> ''.'') [''..foo'']"
    "MaxMessageBytes example_server \<le> 0 \<or>
     int (length (join_lines (map unstuff [''..foo'']))) \<le> MaxMessageBytes example_server"
    by (simp_all add: example_server_def join_lines_def unstuff_def CRLF_def)
  from data_reader_round_trip [OF h, where c = example_rcpt and rest = "[]"]
  show ?thesis
    using h by (simp add: join_lines_def unstuff_def example_server_def CRLF_def)
qed

text \<open>
  Claim C9 as stated (``the delivered body equals the wire input with every occurrence of
  CRLF.. replaced by CRLF.'') fails. The wire body \<open>a\<close> CRLF \<open>.b\<close> CRLF holds no
  CRLF . CRLF and no CRLF followed by two dots, so the replacement leaves it as it is; the
  reader delivers \<open>a\<close> CRLF \<open>b\<close> CRLF. The same holds for a stuffed first line: in
  \<open>..foo\<close> CRLF the two dots do not follow a CRLF, and the reader delivers \<open>.foo\<close> CRLF.
\<close>

theorem leading_dots_removed_beyond_stuffing:
  "\<not> occurs_in (CRLF @ ''.'' @ CRLF) (''a'' @ CRLF @ ''.b'' @ CRLF) \<and>
   fst (newDataReader example_server
          (example_rcpt\<lparr>reader := (''a'' @ CRLF @ ''.b'' @ CRLF) @ ''.'' @ CRLF\<rparr>)) =
     Inr (''a'' @ CRLF @ ''b'' @ CRLF) \<and>
   replace_stuffed (''a'' @ CRLF @ ''.b'' @ CRLF) = ''a'' @ CRLF @ ''.b'' @ CRLF \<and>
   \<not> occurs_in (CRLF @ ''.'' @ CRLF) (''..foo'' @ CRLF) \<and>
   fst (newDataReader example_server
          (example_rcpt\<lparr>reader := (''..foo'' @ CRLF) @ ''.'' @ CRLF\<rparr>)) =
     Inr (''.foo'' @ CRLF) \<and>
   replace_stuffed (''..foo'' @ CRLF) = ''..foo'' @ CRLF"
  by (simp add: newDataReader_def example_server_def CRLF_def)

end
